theory Spec2Isabelle
  imports Main "HOL-Library.Word"
begin

unbundle bit_operations_syntax

section \<open>Go values that bid.go works with\<close>

text \<open>
  A Go \<^verbatim>\<open>string\<close> is a sequence of bytes, which is what \<^typ>\<open>string\<close> is here.
  A \<^verbatim>\<open>float64\<close> is kept as its IEEE-754 binary64 bit pattern; bid.go never
  computes with one, it only stores it (\<^verbatim>\<open>Price\<close>) or hands it to
  \<^verbatim>\<open>strconv.FormatFloat\<close>. Go's \<^verbatim>\<open>int\<close> fields are only stored and compared with
  zero, so they are integers.
\<close>

type_synonym float64 = "64 word"

text \<open>
  A pointer is \<open>None\<close> when nil and \<open>Some v\<close> when it points to a variable holding \<open>v\<close>.
  A method with a pointer receiver takes the pointer and gives it back with the variable's
  new content, next to what the method returned.
\<close>

type_synonym 'a ptr = "'a option"

text \<open>
  Go's \<^verbatim>\<open>error\<close> values: the ones made by \<^verbatim>\<open>errors.New\<close>, with their message, and the
  ones \<^verbatim>\<open>json.Unmarshal\<close> reports. A nil \<^verbatim>\<open>error\<close> is \<open>None\<close> of type \<open>error option\<close>.
\<close>

datatype error = ErrorsNew string | JsonError string

text \<open>A call either returns or panics, the panic with the runtime's message.\<close>

datatype 'a result = Return 'a | Panic string

definition nil_dereference :: string where
  "nil_dereference = ''runtime error: invalid memory address or nil pointer dereference''"

section \<open>Validation errors (bid.go, lines 12-15)\<close>

definition ErrInvalidBidNoID :: error where
  "ErrInvalidBidNoID = ErrorsNew ''openrtb: bid is missing ID''"

definition ErrInvalidBidNoImpID :: error where
  "ErrInvalidBidNoImpID = ErrorsNew ''openrtb: bid is missing impression ID''"

section \<open>MultiString (bid.go, line 17)\<close>

type_synonym MultiString = string

section \<open>The Bid struct (bid.go, lines 53-75)\<close>

text \<open>
  The type \<^verbatim>\<open>Extension\<close> of the field \<^verbatim>\<open>Ext\<close> is declared in another file of the
  package; the record is polymorphic in it.
\<close>

record 'ext Bid =
  ID :: string
  ImpID :: string
  Price :: float64
  AdID :: string
  NURL :: string
  AdMarkup :: string
  AdvDomain :: "string list"
  Bundle :: string
  IURL :: string
  CampaignID :: MultiString
  CreativeID :: string
  Cat :: "string list"
  Attr :: "int list"
  API :: int
  Protocol :: int
  QAGMediaRating :: int
  DealID :: string
  H :: int
  W :: int
  Exp :: int
  Ext :: 'ext

section \<open>Bid.Validate (bid.go, lines 78-86)\<close>

text \<open>
  \<^verbatim>\<open>func (bid *Bid) Validate() error\<close>. Reading \<^verbatim>\<open>bid.ID\<close> through a nil receiver
  panics.
\<close>

definition Validate :: "'ext Bid ptr \<Rightarrow> error option result \<times> 'ext Bid ptr" where
  "Validate bid =
     (case bid of
        None \<Rightarrow> (Panic nil_dereference, bid)
      | Some b \<Rightarrow>
          if ID b = '''' then (Return (Some ErrInvalidBidNoID), bid)
          else if ImpID b = '''' then (Return (Some ErrInvalidBidNoImpID), bid)
          else (Return None, bid))"

section \<open>What json.Unmarshal leaves in an empty interface\<close>

text \<open>
  \<^verbatim>\<open>json.Unmarshal(data, &value)\<close> with \<^verbatim>\<open>value interface{}\<close> stores nil for the JSON
  null, a \<^verbatim>\<open>bool\<close>, a \<^verbatim>\<open>float64\<close>, a \<^verbatim>\<open>string\<close>, a \<^verbatim>\<open>[]interface{}\<close> or a
  \<^verbatim>\<open>map[string]interface{}\<close> (its entries listed in any order).
\<close>

datatype jvalue =
    JNull
  | JBool bool
  | JNumber float64
  | JString string
  | JArray "jvalue list"
  | JObject "(string \<times> jvalue) list"

text \<open>
  The dynamic types \<^verbatim>\<open>reflect.TypeOf\<close> can find in such a value, and their names as
  \<^verbatim>\<open>Type.String\<close> prints them. \<^verbatim>\<open>reflect.TypeOf\<close> of a nil interface value is the nil
  \<^verbatim>\<open>Type\<close>, here \<open>None\<close>.
\<close>

datatype rtype = TBool | TFloat64 | TString | TSliceInterface | TMapStringInterface

fun TypeOf :: "jvalue \<Rightarrow> rtype option" where
  "TypeOf JNull = None"
| "TypeOf (JBool _) = Some TBool"
| "TypeOf (JNumber _) = Some TFloat64"
| "TypeOf (JString _) = Some TString"
| "TypeOf (JArray _) = Some TSliceInterface"
| "TypeOf (JObject _) = Some TMapStringInterface"

fun Type_String :: "rtype \<Rightarrow> string" where
  "Type_String TBool = ''bool''"
| "Type_String TFloat64 = ''float64''"
| "Type_String TString = ''string''"
| "Type_String TSliceInterface = ''[]interface {}''"
| "Type_String TMapStringInterface = ''map[string]interface {}''"

section \<open>MultiString.UnmarshalJSON (bid.go, lines 19-36)\<close>

text \<open>The assignment \<^verbatim>\<open>*s = v\<close>: a nil \<^verbatim>\<open>s\<close> panics, otherwise the variable holds \<open>v\<close>.\<close>

definition assign :: "MultiString ptr \<Rightarrow> MultiString \<Rightarrow> error option result \<times> MultiString ptr" where
  "assign s v = (case s of None \<Rightarrow> (Panic nil_dereference, s) | Some _ \<Rightarrow> (Return None, Some v))"

text \<open>
  The two library functions the method calls are parameters: \<open>json_Unmarshal data\<close> is
  the error of \<^verbatim>\<open>json.Unmarshal(data, &value)\<close> or the value it stored, and
  \<open>FormatFloat f\<close> is \<^verbatim>\<open>strconv.FormatFloat(f, 'f', -1, 64)\<close>. In the default case of the
  type switch, \<^verbatim>\<open>reflect.TypeOf(value).String()\<close> calls a method of a nil interface
  value when \<^verbatim>\<open>value\<close> is nil, which panics.
\<close>

definition UnmarshalJSON ::
  "(string \<Rightarrow> error + jvalue) \<Rightarrow> (float64 \<Rightarrow> string) \<Rightarrow> string \<Rightarrow> MultiString ptr
     \<Rightarrow> error option result \<times> MultiString ptr" where
  "UnmarshalJSON json_Unmarshal FormatFloat data s =
     (case json_Unmarshal data of
        Inl err \<Rightarrow> (Return (Some err), s)
      | Inr value \<Rightarrow>
          (case value of
             JString str \<Rightarrow> assign s str
           | JNumber f \<Rightarrow> assign s (FormatFloat f)
           | _ \<Rightarrow>
               (case TypeOf value of
                  None \<Rightarrow> (Panic nil_dereference, s)
                | Some t \<Rightarrow> (Return (Some (ErrorsNew (''unknown type: '' @ Type_String t))), s))))"

section \<open>The library's quoting, as fmt's verb q applies it\<close>

text \<open>
  \<^verbatim>\<open>MarshalJSON\<close> formats its receiver with \<^verbatim>\<open>fmt.Sprintf("%q", s)\<close>. The functions of
  the Go standard library behind that call (packages \<^verbatim>\<open>unicode/utf8\<close>, \<^verbatim>\<open>strconv\<close> and
  \<^verbatim>\<open>fmt\<close>) are written out here. Runes and bytes are natural numbers; a byte of a string
  is read with \<^const>\<open>of_char\<close>.
\<close>

definition RuneError :: nat where "RuneError = 0xFFFD"
definition RuneSelf :: nat where "RuneSelf = 0x80"
definition MaxRune :: nat where "MaxRune = 0x10FFFF"
definition surrogateMin :: nat where "surrogateMin = 0xD800"
definition surrogateMax :: nat where "surrogateMax = 0xDFFF"

definition dquote :: char where "dquote = CHR 0x22"
definition backslash :: char where "backslash = CHR 0x5C"

definition lowerhex :: string where "lowerhex = ''0123456789abcdef''"

text \<open>
  utf8's table \<^verbatim>\<open>first\<close>: \<^verbatim>\<open>0xF0\<close> marks an ASCII byte, \<^verbatim>\<open>0xF1\<close> a byte that starts no
  rune; otherwise the low three bits are the length of the encoding and the high four
  bits index \<^verbatim>\<open>acceptRanges\<close>, the range allowed for the second byte.
\<close>

definition first :: "nat \<Rightarrow> nat" where
  "first b =
     (if b < 0x80 then 0xF0
      else if b < 0xC2 then 0xF1
      else if b < 0xE0 then 0x02
      else if b = 0xE0 then 0x13
      else if b < 0xED then 0x03
      else if b = 0xED then 0x23
      else if b < 0xF0 then 0x03
      else if b = 0xF0 then 0x34
      else if b < 0xF4 then 0x04
      else if b = 0xF4 then 0x44
      else 0xF1)"

definition acceptRanges :: "nat \<Rightarrow> nat \<times> nat" where
  "acceptRanges i =
     (if i = 1 then (0xA0, 0xBF)
      else if i = 2 then (0x80, 0x9F)
      else if i = 3 then (0x90, 0xBF)
      else if i = 4 then (0x80, 0x8F)
      else (0x80, 0xBF))"

text \<open>
  \<^verbatim>\<open>utf8.DecodeRuneInString\<close>: the rune at the start of \<open>s\<close> and the number of bytes it
  takes; \<open>(RuneError, 1)\<close> for an encoding that is invalid or cut short, \<open>(RuneError, 0)\<close>
  for the empty string. For a first byte marked \<^verbatim>\<open>0xF0\<close> or \<^verbatim>\<open>0xF1\<close> the source
  selects between the byte and \<^verbatim>\<open>RuneError\<close> by the mark's lowest bit.
\<close>

definition DecodeRuneInString :: "string \<Rightarrow> nat \<times> nat" where
  "DecodeRuneInString s =
     (let n = length s in
      if n < 1 then (RuneError, 0)
      else
        let s0 = of_char (s ! 0); x = first s0 in
        if x \<ge> 0xF0 then (if x AND 1 = 1 then (RuneError, 1) else (s0, 1))
        else
          let sz = x AND 7; accept = acceptRanges (drop_bit 4 x) in
          if n < sz then (RuneError, 1)
          else
            let s1 = of_char (s ! 1) in
            if s1 < fst accept \<or> snd accept < s1 then (RuneError, 1)
            else if sz \<le> 2 then (push_bit 6 (s0 AND 0x1F) OR (s1 AND 0x3F), 2)
            else
              let s2 = of_char (s ! 2) in
              if s2 < 0x80 \<or> 0xBF < s2 then (RuneError, 1)
              else if sz \<le> 3 then
                (push_bit 12 (s0 AND 0x0F) OR push_bit 6 (s1 AND 0x3F) OR (s2 AND 0x3F), 3)
              else
                let s3 = of_char (s ! 3) in
                if s3 < 0x80 \<or> 0xBF < s3 then (RuneError, 1)
                else
                  (push_bit 18 (s0 AND 0x07) OR push_bit 12 (s1 AND 0x3F)
                     OR push_bit 6 (s2 AND 0x3F) OR (s3 AND 0x3F), 4))"

text \<open>\<^verbatim>\<open>utf8.ValidRune\<close> and \<^verbatim>\<open>utf8.AppendRune\<close> (the bytes appended for a rune).\<close>

definition ValidRune :: "nat \<Rightarrow> bool" where
  "ValidRune r = (r < surrogateMin \<or> (surrogateMax < r \<and> r \<le> MaxRune))"

definition AppendRune :: "nat \<Rightarrow> string" where
  "AppendRune r =
     (if r \<le> 0x7F then [char_of r]
      else if r \<le> 0x7FF then [char_of (0xC0 OR drop_bit 6 r), char_of (0x80 OR (r AND 0x3F))]
      else if r > MaxRune \<or> (surrogateMin \<le> r \<and> r \<le> surrogateMax) then
        [char_of (0xEF::nat), char_of (0xBF::nat), char_of (0xBD::nat)]
      else if r \<le> 0xFFFF then
        [char_of (0xE0 OR drop_bit 12 r), char_of (0x80 OR (drop_bit 6 r AND 0x3F)),
         char_of (0x80 OR (r AND 0x3F))]
      else
        [char_of (0xF0 OR drop_bit 18 r), char_of (0x80 OR (drop_bit 12 r AND 0x3F)),
         char_of (0x80 OR (drop_bit 6 r AND 0x3F)), char_of (0x80 OR (r AND 0x3F))])"

text \<open>
  \<^verbatim>\<open>strconv.IsPrint\<close>. Up to \<^verbatim>\<open>0xFF\<close> the source decides by comparisons; above, it
  searches the package's Unicode tables, which are the parameter \<open>isPrintTable\<close>.
\<close>

definition IsPrint :: "(nat \<Rightarrow> bool) \<Rightarrow> nat \<Rightarrow> bool" where
  "IsPrint isPrintTable r =
     (if r \<le> 0xFF then
        (if 0x20 \<le> r \<and> r \<le> 0x7E then True
         else if 0xA1 \<le> r \<and> r \<le> 0xFF then r \<noteq> 0xAD
         else False)
      else isPrintTable r)"

text \<open>The hexadecimal digits of \<open>r\<close> from bit \<open>4 * k\<close> down, as the source's loops write them.\<close>

fun hexdigits :: "nat \<Rightarrow> nat \<Rightarrow> string" where
  "hexdigits 0 r = []"
| "hexdigits (Suc k) r = lowerhex ! (drop_bit (4 * k) r AND 0xF) # hexdigits k r"

text \<open>
  \<^verbatim>\<open>strconv.appendEscapedRune\<close> with the quote character \<^verbatim>\<open>"\<close> and both flags
  (\<^verbatim>\<open>ASCIIonly\<close>, \<^verbatim>\<open>graphicOnly\<close>) false, as \<^verbatim>\<open>strconv.Quote\<close> calls it: the bytes
  appended for the rune \<open>r\<close>.
\<close>

definition appendEscapedRune :: "(nat \<Rightarrow> bool) \<Rightarrow> nat \<Rightarrow> string" where
  "appendEscapedRune isPrintTable r =
     (if r = of_char dquote \<or> r = of_char backslash then [backslash, char_of r]
      else if IsPrint isPrintTable r then AppendRune r
      else if r = 0x07 then [backslash, CHR ''a'']
      else if r = 0x08 then [backslash, CHR ''b'']
      else if r = 0x0C then [backslash, CHR ''f'']
      else if r = 0x0A then [backslash, CHR ''n'']
      else if r = 0x0D then [backslash, CHR ''r'']
      else if r = 0x09 then [backslash, CHR ''t'']
      else if r = 0x0B then [backslash, CHR ''v'']
      else if r < 0x20 \<or> r = 0x7F then backslash # CHR ''x'' # hexdigits 2 r
      else if \<not> ValidRune r then backslash # CHR ''u'' # hexdigits 4 RuneError
      else if r < 0x10000 then backslash # CHR ''u'' # hexdigits 4 r
      else backslash # CHR ''U'' # hexdigits 8 r)"

text \<open>
  One turn of the loop of \<^verbatim>\<open>strconv.appendQuotedWith\<close> reads a rune: the first byte
  when it is below \<^verbatim>\<open>RuneSelf\<close>, otherwise what \<^verbatim>\<open>DecodeRuneInString\<close> finds.
\<close>

definition next_rune :: "string \<Rightarrow> nat \<times> nat" where
  "next_rune s =
     (let r = of_char (s ! 0) in if r \<ge> RuneSelf then DecodeRuneInString s else (r, 1))"

text \<open>
  The loop itself: a byte that is no rune is written as \<^verbatim>\<open>\x\<close> and two digits, any
  other rune as \<^const>\<open>appendEscapedRune\<close> writes it, and the loop goes on behind the
  bytes read.
\<close>

function quoted_body :: "(nat \<Rightarrow> bool) \<Rightarrow> string \<Rightarrow> string" where
  "quoted_body isPrintTable s =
     (if s = [] then []
      else
        (if snd (next_rune s) = 1 \<and> fst (next_rune s) = RuneError
         then backslash # CHR ''x'' # hexdigits 2 (of_char (s ! 0))
         else appendEscapedRune isPrintTable (fst (next_rune s)))
        @ quoted_body isPrintTable (drop (snd (next_rune s)) s))"
  by pat_completeness auto
termination
proof (relation "measure (\<lambda>(t, s). length s)")
  fix isPrintTable :: "nat \<Rightarrow> bool" and s :: string
  assume "s \<noteq> []"
  then have "0 < snd (next_rune s)"
    by (cases s) (simp_all add: next_rune_def DecodeRuneInString_def Let_def)
  with \<open>s \<noteq> []\<close>
  show "((isPrintTable, drop (snd (next_rune s)) s), (isPrintTable, s))
          \<in> measure (\<lambda>(t, s). length s)"
    by simp
qed simp

declare quoted_body.simps [simp del]

text \<open>\<^verbatim>\<open>strconv.Quote\<close>: the body between two double quotes.\<close>

definition Quote :: "(nat \<Rightarrow> bool) \<Rightarrow> string \<Rightarrow> string" where
  "Quote isPrintTable s = dquote # quoted_body isPrintTable s @ [dquote]"




section \<open>MultiString.String and MultiString.MarshalJSON (bid.go, lines 38-44)\<close>

text \<open>\<^verbatim>\<open>func (s MultiString) String() string\<close>, the conversion \<^verbatim>\<open>string(s)\<close>.\<close>

definition String :: "MultiString \<Rightarrow> string" where
  "String s = s"

text \<open>
  The method set of \<^verbatim>\<open>*MultiString\<close> holds \<^verbatim>\<open>String\<close> too: called through a pointer,
  the receiver is the variable's value, and a nil pointer panics.
\<close>

definition String_of_ptr :: "MultiString ptr \<Rightarrow> string result" where
  "String_of_ptr p = (case p of None \<Rightarrow> Panic nil_dereference | Some s \<Rightarrow> Return (String s))"

text \<open>
  \<^verbatim>\<open>fmt.Sprintf("%q", p)\<close> for a \<^verbatim>\<open>*MultiString\<close>. The argument is none of the basic
  types that fmt prints itself, so \<^verbatim>\<open>handleMethods\<close> runs: the argument is a
  \<^verbatim>\<open>Stringer\<close>, and for the verb \<^verbatim>\<open>q\<close> fmt quotes what \<^verbatim>\<open>String\<close> returns, with
  \<^verbatim>\<open>strconv.Quote\<close> as no flag is set. A panic of \<^verbatim>\<open>String\<close> is caught by
  \<^verbatim>\<open>catchPanic\<close>, which prints \<^verbatim>\<open><nil>\<close> for a nil pointer and the panic otherwise.
\<close>

definition Sprintf_q :: "(nat \<Rightarrow> bool) \<Rightarrow> MultiString ptr \<Rightarrow> string" where
  "Sprintf_q isPrintTable p =
     (case String_of_ptr p of
        Return str \<Rightarrow> Quote isPrintTable str
      | Panic msg \<Rightarrow>
          (case p of
             None \<Rightarrow> ''<nil>''
           | Some _ \<Rightarrow> ''%!q(PANIC=String method: '' @ msg @ '')''))"

text \<open>
  \<^verbatim>\<open>func (s *MultiString) MarshalJSON() ([]byte, error)\<close>: the bytes and the error
  returned, and the receiver.
\<close>

definition MarshalJSON ::
  "(nat \<Rightarrow> bool) \<Rightarrow> MultiString ptr \<Rightarrow> (string \<times> error option) result \<times> MultiString ptr" where
  "MarshalJSON isPrintTable s = (Return (Sprintf_q isPrintTable s, None), s)"

section \<open>The field tags of Bid, as encoding/json reads them\<close>







section \<open>A record to start examples from\<close>

text \<open>The zero value \<^verbatim>\<open>Bid{}\<close>, given the zero value of \<^verbatim>\<open>Extension\<close>.\<close>

definition zero_Bid :: "'ext \<Rightarrow> 'ext Bid" where
  "zero_Bid e =
     \<lparr>ID = '''', ImpID = '''', Price = 0, AdID = '''', NURL = '''', AdMarkup = '''',
      AdvDomain = [], Bundle = '''', IURL = '''', CampaignID = '''', CreativeID = '''', Cat = [],
      Attr = [], API = 0, Protocol = 0, QAGMediaRating = 0, DealID = '''', H = 0, W = 0, Exp = 0,
      Ext = e\<rparr>"

section \<open>Validation\<close>

text \<open>
  C1. For every Bid record, \<^verbatim>\<open>Validate\<close> returns \<^verbatim>\<open>ErrInvalidBidNoID\<close> when the
  identifier is empty; otherwise \<^verbatim>\<open>ErrInvalidBidNoImpID\<close> when the impression
  identifier is empty; otherwise nil. The two errors differ, one call reports at most
  one of them, and two records with the same identifier and the same impression
  identifier get the same result whatever their other fields hold.
\<close>

theorem Validate_checks_in_order:
  "fst (Validate (Some b)) =
     Return (if ID b = '''' then Some ErrInvalidBidNoID
             else if ImpID b = '''' then Some ErrInvalidBidNoImpID
             else None)
   \<and> ErrInvalidBidNoID \<noteq> ErrInvalidBidNoImpID
   \<and> (\<forall>b' :: 'ext Bid. ID b' = ID b \<and> ImpID b' = ImpID b
          \<longrightarrow> fst (Validate (Some b')) = fst (Validate (Some b)))"
  by (simp add: Validate_def ErrInvalidBidNoID_def ErrInvalidBidNoImpID_def)

text \<open>
  At a record with an identifier and no impression identifier, and at the same record
  with a price of -1.0, a height of -1 and an API code of 7.
\<close>

theorem Validate_checks_in_order_witness:
  "fst (Validate (Some ((zero_Bid JNull)\<lparr>ID := ''bid1''\<rparr>))) = Return (Some ErrInvalidBidNoImpID)
   \<and> fst (Validate (Some ((zero_Bid JNull)
               \<lparr>ID := ''bid1'', Price := 0xBFF0000000000000, H := - 1, W := 0, API := 7\<rparr>)))
     = Return (Some ErrInvalidBidNoImpID)"
proof -
  let ?b = "(zero_Bid JNull)\<lparr>ID := ''bid1''\<rparr>"
  let ?b' = "(zero_Bid JNull)
               \<lparr>ID := ''bid1'', Price := 0xBFF0000000000000, H := - 1, W := 0, API := 7\<rparr>"
  have same: "ID ?b' = ID ?b \<and> ImpID ?b' = ImpID ?b"
    by (simp add: zero_Bid_def)
  have empty: "ImpID ?b = '''' \<and> ID ?b \<noteq> ''''"
    by (simp add: zero_Bid_def)
  from Validate_checks_in_order [of ?b]
  have res: "fst (Validate (Some ?b)) =
     Return (if ID ?b = '''' then Some ErrInvalidBidNoID
             else if ImpID ?b = '''' then Some ErrInvalidBidNoImpID
             else None)"
    and frame: "\<forall>b'. ID b' = ID ?b \<and> ImpID b' = ImpID ?b
          \<longrightarrow> fst (Validate (Some b')) = fst (Validate (Some ?b))"
    by blast+
  from frame same have "fst (Validate (Some ?b')) = fst (Validate (Some ?b))"
    by blast
  moreover from res empty have "fst (Validate (Some ?b)) = Return (Some ErrInvalidBidNoImpID)"
    by simp
  ultimately show ?thesis by simp
qed

text \<open>
  C7. \<^verbatim>\<open>Validate\<close> leaves the record behind its receiver as it was, and a call after
  any number of earlier calls returns what the first call returned.
\<close>

theorem Validate_pure:
  "snd (Validate bid) = bid
   \<and> fst (Validate (snd (Validate bid))) = fst (Validate bid)
   \<and> ((\<lambda>p. snd (Validate p)) ^^ n) bid = bid
   \<and> fst (Validate (((\<lambda>p. snd (Validate p)) ^^ n) bid)) = fst (Validate bid)"
proof -
  have frame: "snd (Validate p) = p" for p :: "'a Bid ptr"
    by (simp add: Validate_def split: option.split)
  have "((\<lambda>p. snd (Validate p)) ^^ n) bid = bid"
    by (induction n) (simp_all add: frame)
  with frame show ?thesis by simp
qed

text \<open>
  C10. \<^verbatim>\<open>Validate\<close> accepts a record whose identifier or impression identifier is
  nothing but white space (space, tab, line feed, carriage return), as long as neither
  of the two has length zero.
\<close>

theorem Validate_accepts_blank:
  assumes "length (ID b) \<noteq> 0" and "length (ImpID b) \<noteq> 0"
    and "set (ID b) \<subseteq> {CHR 0x20, CHR 0x09, CHR 0x0A, CHR 0x0D}
         \<or> set (ImpID b) \<subseteq> {CHR 0x20, CHR 0x09, CHR 0x0A, CHR 0x0D}"
  shows "fst (Validate (Some b)) = Return None"
  using assms by (simp add: Validate_def)

theorem Validate_accepts_blank_witness:
  "length '' '' \<noteq> 0 \<and> set '' '' \<subseteq> {CHR 0x20, CHR 0x09, CHR 0x0A, CHR 0x0D}
   \<and> fst (Validate (Some ((zero_Bid JNull)\<lparr>ID := '' '', ImpID := '' ''\<rparr>))) = Return None"
  using Validate_accepts_blank [of "(zero_Bid JNull)\<lparr>ID := '' '', ImpID := '' ''\<rparr>"]
  by (simp add: zero_Bid_def)


section \<open>Decoding a MultiString\<close>

text \<open>
  C3. When the parsed value is a text literal, \<^verbatim>\<open>UnmarshalJSON\<close> returns nil and the
  receiver holds that text, byte for byte.
\<close>

theorem UnmarshalJSON_text_verbatim:
  assumes "json_Unmarshal data = Inr (JString t)"
  shows "UnmarshalJSON json_Unmarshal FormatFloat data (Some old) = (Return None, Some t)"
  using assms by (simp add: UnmarshalJSON_def assign_def)

theorem UnmarshalJSON_text_verbatim_witness:
  "(\<lambda>d. if d = [dquote] @ ''b1 x'' @ [dquote] then Inr (JString ''b1 x'')
         else Inl (JsonError ''syntax''))
      ([dquote] @ ''b1 x'' @ [dquote]) = Inr (JString ''b1 x'')
   \<and> UnmarshalJSON
        (\<lambda>d. if d = [dquote] @ ''b1 x'' @ [dquote] then Inr (JString ''b1 x'')
              else Inl (JsonError ''syntax''))
        (\<lambda>f. ''0'') ([dquote] @ ''b1 x'' @ [dquote]) (Some ''old'')
      = (Return None, Some ''b1 x'')"
  using UnmarshalJSON_text_verbatim
    [of "\<lambda>d. if d = [dquote] @ ''b1 x'' @ [dquote] then Inr (JString ''b1 x'')
              else Inl (JsonError ''syntax'')"
        "[dquote] @ ''b1 x'' @ [dquote]" "''b1 x''" "\<lambda>f. ''0''" "''old''"]
  by simp

text \<open>
  C8. When \<^verbatim>\<open>UnmarshalJSON\<close> returns an error, from \<^verbatim>\<open>json.Unmarshal\<close> or from the
  default case of the type switch, the receiver holds what it held before the call.
\<close>

theorem UnmarshalJSON_error_keeps_receiver:
  assumes "fst (UnmarshalJSON json_Unmarshal FormatFloat data s) = Return (Some err)"
  shows "snd (UnmarshalJSON json_Unmarshal FormatFloat data s) = s"
  using assms
  by (auto simp: UnmarshalJSON_def assign_def split: sum.splits jvalue.splits option.splits)

text \<open>At a boolean, which the type switch refuses, and at input that does not parse.\<close>

theorem UnmarshalJSON_error_keeps_receiver_witness:
  "fst (UnmarshalJSON (\<lambda>d. if d = ''true'' then Inr (JBool True) else Inl (JsonError ''syntax''))
          (\<lambda>f. ''0'') ''true'' (Some ''old'')) = Return (Some (ErrorsNew ''unknown type: bool''))
   \<and> snd (UnmarshalJSON (\<lambda>d. if d = ''true'' then Inr (JBool True) else Inl (JsonError ''syntax''))
          (\<lambda>f. ''0'') ''true'' (Some ''old'')) = Some ''old''
   \<and> fst (UnmarshalJSON (\<lambda>d. if d = ''true'' then Inr (JBool True) else Inl (JsonError ''syntax''))
          (\<lambda>f. ''0'') ''tru'' (Some ''old'')) = Return (Some (JsonError ''syntax''))
   \<and> snd (UnmarshalJSON (\<lambda>d. if d = ''true'' then Inr (JBool True) else Inl (JsonError ''syntax''))
          (\<lambda>f. ''0'') ''tru'' (Some ''old'')) = Some ''old''"
proof -
  let ?u = "\<lambda>d. if d = ''true'' then Inr (JBool True) else Inl (JsonError ''syntax'')"
  let ?f = "\<lambda>f :: float64. ''0''"
  have 1: "fst (UnmarshalJSON ?u ?f ''true'' (Some ''old''))
             = Return (Some (ErrorsNew ''unknown type: bool''))"
    by (simp add: UnmarshalJSON_def)
  have 2: "fst (UnmarshalJSON ?u ?f ''tru'' (Some ''old'')) = Return (Some (JsonError ''syntax''))"
    by (simp add: UnmarshalJSON_def)
  from 1 2 UnmarshalJSON_error_keeps_receiver [OF 1] UnmarshalJSON_error_keeps_receiver [OF 2]
  show ?thesis by simp
qed

text \<open>
  C2, at the JSON null. \<^verbatim>\<open>json.Unmarshal\<close> leaves \<^verbatim>\<open>value\<close> nil, the type switch takes
  its default case, and the call panics with a nil dereference where an error naming the
  shape was meant: no error is returned, whatever the receiver.
\<close>

theorem UnmarshalJSON_null_panics:
  assumes "json_Unmarshal data = Inr JNull"
  shows "UnmarshalJSON json_Unmarshal FormatFloat data s = (Panic nil_dereference, s)"
  using assms by (simp add: UnmarshalJSON_def)

theorem UnmarshalJSON_null_panics_witness:
  "(\<lambda>d. if d = ''null'' then Inr JNull else Inl (JsonError ''syntax'')) ''null'' = Inr JNull
   \<and> UnmarshalJSON (\<lambda>d. if d = ''null'' then Inr JNull else Inl (JsonError ''syntax''))
        (\<lambda>f. ''0'') ''null'' (Some ''old'')
      = (Panic ''runtime error: invalid memory address or nil pointer dereference'', Some ''old'')"
  using UnmarshalJSON_null_panics
    [of "\<lambda>d. if d = ''null'' then Inr JNull else Inl (JsonError ''syntax'')" "''null''"
        "\<lambda>f. ''0''" "Some ''old''"]
  by (simp add: nil_dereference_def)

text \<open>
  For a boolean, a sequence and a mapping, \<^verbatim>\<open>UnmarshalJSON\<close> returns an error whose
  message names the type, and keeps the receiver.
\<close>

theorem UnmarshalJSON_unknown_type:
  assumes "json_Unmarshal data = Inr v"
  shows "(v = JBool x \<longrightarrow> UnmarshalJSON json_Unmarshal FormatFloat data s
            = (Return (Some (ErrorsNew ''unknown type: bool'')), s))
       \<and> (v = JArray xs \<longrightarrow> UnmarshalJSON json_Unmarshal FormatFloat data s
            = (Return (Some (ErrorsNew ''unknown type: []interface {}'')), s))
       \<and> (v = JObject kvs \<longrightarrow> UnmarshalJSON json_Unmarshal FormatFloat data s
            = (Return (Some (ErrorsNew ''unknown type: map[string]interface {}'')), s))"
  using assms by (simp add: UnmarshalJSON_def)

theorem UnmarshalJSON_unknown_type_witness:
  "UnmarshalJSON (\<lambda>d. if d = ''[]'' then Inr (JArray []) else Inr (JObject []))
      (\<lambda>f. ''0'') ''[]'' (Some ''old'')
     = (Return (Some (ErrorsNew ''unknown type: []interface {}'')), Some ''old'')
   \<and> UnmarshalJSON (\<lambda>d. if d = ''[]'' then Inr (JArray []) else Inr (JObject []))
      (\<lambda>f. ''0'') ''{}'' (Some ''old'')
     = (Return (Some (ErrorsNew ''unknown type: map[string]interface {}'')), Some ''old'')"
proof -
  let ?u = "\<lambda>d. if d = ''[]'' then Inr (JArray []) else Inr (JObject [])"
  let ?f = "\<lambda>f :: float64. ''0''"
  have "UnmarshalJSON ?u ?f ''[]'' (Some ''old'')
     = (Return (Some (ErrorsNew ''unknown type: []interface {}'')), Some ''old'')"
    using UnmarshalJSON_unknown_type
      [where json_Unmarshal = ?u and data = "''[]''" and v = "JArray []" and xs = "[]"
         and FormatFloat = ?f and s = "Some ''old''"]
    by simp
  moreover have "UnmarshalJSON ?u ?f ''{}'' (Some ''old'')
     = (Return (Some (ErrorsNew ''unknown type: map[string]interface {}'')), Some ''old'')"
    using UnmarshalJSON_unknown_type
      [where json_Unmarshal = ?u and data = "''{}''" and v = "JObject []" and kvs = "[]"
         and FormatFloat = ?f and s = "Some ''old''"]
    by simp
  ultimately show ?thesis by simp
qed

section \<open>Encoding a MultiString\<close>

text \<open>
  C9. \<^verbatim>\<open>MarshalJSON\<close> returns bytes and a nil error for every receiver, the nil pointer
  included.
\<close>

theorem MarshalJSON_never_fails:
  "\<exists>bytes. fst (MarshalJSON isPrintTable s) = Return (bytes, None)"
  by (simp add: MarshalJSON_def)










lemma and_7: "(x::nat) AND 7 = x mod 8"
  using take_bit_eq_mask [of 3 x] by (simp add: take_bit_eq_mod mask_eq_exp_minus_1)

lemma and_1: "(x::nat) AND 1 = x mod 2"
  using take_bit_eq_mask [of 1 x] by (simp add: take_bit_eq_mod mask_eq_exp_minus_1)





lemma sz_accept:
  "(0x02::nat) AND 7 = 2" "acceptRanges (drop_bit 4 (0x02::nat)) = (0x80, 0xBF)"
  "(0x13::nat) AND 7 = 3" "acceptRanges (drop_bit 4 (0x13::nat)) = (0xA0, 0xBF)"
  "(0x03::nat) AND 7 = 3" "acceptRanges (drop_bit 4 (0x03::nat)) = (0x80, 0xBF)"
  "(0x23::nat) AND 7 = 3" "acceptRanges (drop_bit 4 (0x23::nat)) = (0x80, 0x9F)"
  "(0x34::nat) AND 7 = 4" "acceptRanges (drop_bit 4 (0x34::nat)) = (0x90, 0xBF)"
  "(0x04::nat) AND 7 = 4" "acceptRanges (drop_bit 4 (0x04::nat)) = (0x80, 0xBF)"
  "(0x44::nat) AND 7 = 4" "acceptRanges (drop_bit 4 (0x44::nat)) = (0x80, 0x8F)"
  "(0xF0::nat) AND 1 = 0" "(0xF1::nat) AND 1 = 1"
  by (simp_all add: and_7 and_1 acceptRanges_def drop_bit_eq_div)



































section \<open>The keys of an encoded Bid\<close>







end
